theory Spec2Isabelle
  imports Main
begin

section \<open>Python values, exceptions and the log\<close>

text \<open>
  The terminal emulator of \<^verbatim>\<open>aiwindows_client/ui/terminal_widget.py\<close>: the reader thread
  \<^verbatim>\<open>ConPTYReader\<close>, the canvas \<^verbatim>\<open>WindowsTerminalCanvas\<close> and the tab container
  \<^verbatim>\<open>TerminalTabWidget\<close>. Text is a \<open>string\<close> (the characters as the bytes the PTY
  receives); an exception is a value; \<^verbatim>\<open>logger.error\<close> and \<^verbatim>\<open>logger.info\<close> append to a
  log that each object carries.
\<close>

datatype py_error =
  Exception string | ZeroDivisionError | IndexError | TypeError | AttributeError

datatype log_entry = LogError string | LogInfo string

fun error_text :: "py_error \<Rightarrow> string" where
  "error_text (Exception msg) = msg"
| "error_text ZeroDivisionError = ''integer division or modulo by zero''"
| "error_text IndexError = ''list index out of range''"
| "error_text TypeError = ''object is not iterable''"
| "error_text AttributeError = ''object has no attribute''"

text \<open>A cell attribute as \<^verbatim>\<open>paintEvent\<close> inspects it: \<^verbatim>\<open>isinstance(fg, int)\<close> or a string.\<close>

datatype pyval = PyInt int | PyStr string

section \<open>The PTY process (\<^verbatim>\<open>winpty.PtyProcess\<close>)\<close>

text \<open>
  The pseudo-terminal is a library object. The model keeps what the widget observes of it:
  the spawn arguments, what \<^verbatim>\<open>isalive()\<close> answers, the arguments of the \<^verbatim>\<open>write\<close> calls
  made on it (oldest first), the window size last set, and whether its \<^verbatim>\<open>write\<close> and
  \<^verbatim>\<open>setwinsize\<close> raise.
\<close>

record pty =
  pty_argv :: "string list"
  pty_cwd :: string
  pty_dimensions :: "int \<times> int"
  pty_alive :: bool
  pty_writes :: "string list"
  pty_write_raises :: bool
  pty_setwinsize_raises :: bool

definition isalive :: "pty \<Rightarrow> bool" where
  "isalive p = pty_alive p"

text \<open>\<^verbatim>\<open>pty.write(data)\<close>: the call is recorded; it raises when the PTY says so.\<close>

definition pty_write :: "pty \<Rightarrow> string \<Rightarrow> pty \<times> py_error option" where
  "pty_write p d =
     (p\<lparr>pty_writes := pty_writes p @ [d]\<rparr>,
      if pty_write_raises p then Some (Exception ''write failed'') else None)"

text \<open>\<^verbatim>\<open>pty.setwinsize(rows, cols)\<close>.\<close>

definition setwinsize :: "pty \<Rightarrow> int \<Rightarrow> int \<Rightarrow> py_error + pty" where
  "setwinsize p r c =
     (if pty_setwinsize_raises p then Inl (Exception ''setwinsize failed'')
      else Inr (p\<lparr>pty_dimensions := (r, c)\<rparr>))"

text \<open>\<^verbatim>\<open>pty.terminate(force=True)\<close>.\<close>

definition terminate :: "pty \<Rightarrow> pty" where
  "terminate p = p\<lparr>pty_alive := False\<rparr>"

section \<open>The screen (\<^verbatim>\<open>pyte.Screen\<close>) as the canvas reads it\<close>

text \<open>
  A cell is a \<^verbatim>\<open>Char\<close> with its \<^verbatim>\<open>data\<close>, \<^verbatim>\<open>fg\<close> and \<^verbatim>\<open>bg\<close>. The screen's \<^verbatim>\<open>buffer\<close> is a
  dictionary from line numbers to lines, and a line is a dictionary from column numbers to
  cells; only the lines and cells written so far are present, so a new screen has an empty
  buffer. A dictionary is kept as the list of its items in insertion order.
\<close>

record pchar =
  ch_data :: string
  ch_fg :: pyval
  ch_bg :: pyval

record screen =
  scr_buffer :: "(int \<times> (int \<times> pchar) list) list"
  cursor_x :: int
  cursor_y :: int
  scr_lines :: int
  scr_columns :: int

text \<open>Iterating a dictionary yields its keys.\<close>

definition dict_iter :: "('k \<times> 'v) list \<Rightarrow> 'k list" where
  "dict_iter d = map fst d"

text \<open>
  What the loop variable \<^verbatim>\<open>row\<close> of \<^verbatim>\<open>paintEvent\<close> can be bound to: an integer, or a
  sequence of cells. \<^verbatim>\<open>enumerate(row)\<close> walks a sequence and raises \<^verbatim>\<open>TypeError\<close> on an
  integer.
\<close>

datatype pyobj = IntObj int | CellsObj "pchar list"

fun enumerate_row :: "pyobj \<Rightarrow> py_error + pchar list" where
  "enumerate_row (IntObj n) = Inl TypeError"
| "enumerate_row (CellsObj chs) = Inr chs"

section \<open>The canvas \<^verbatim>\<open>WindowsTerminalCanvas\<close>\<close>

text \<open>\<^verbatim>\<open>ConPTYReader\<close> as the canvas holds it: the \<^verbatim>\<open>_running\<close> flag.\<close>

record reader =
  rd_running :: bool

record canvas =
  wid :: nat
  cols :: int
  rows :: int
  char_width :: int
  char_height :: int
  screen :: "screen option"
  fallback_buffer :: "string list"
  pty :: "pty option"
  reader :: "reader option"
  working_dir :: string
  has_focus_policy :: bool
  updates :: nat
  log :: "log_entry list"

text \<open>
  \<^verbatim>\<open>_write\<close>: the guard \<^verbatim>\<open>if self.pty and self.pty.isalive()\<close>, then the \<^verbatim>\<open>write\<close> in a
  \<^verbatim>\<open>try\<close> whose handler logs.
\<close>

definition canvas_write :: "canvas \<Rightarrow> string \<Rightarrow> py_error + canvas" where
  "canvas_write c d =
     (case pty c of
        None \<Rightarrow> Inr c
      | Some p \<Rightarrow>
          if isalive p then
            (case pty_write p d of
               (p', None) \<Rightarrow> Inr (c\<lparr>pty := Some p'\<rparr>)
             | (p', Some e) \<Rightarrow>
                 Inr (c\<lparr>pty := Some p',
                        log := log c @ [LogError (''Write error: '' @ error_text e)]\<rparr>))
          else Inr c)"

subsection \<open>Key events\<close>

datatype qt_key =
    Key_Return | Key_Enter | Key_Backspace | Key_Tab | Key_Escape
  | Key_Up | Key_Down | Key_Right | Key_Left | Key_Home | Key_End
  | Key_PageUp | Key_PageDown | Key_Insert | Key_Delete
  | Key_C | Key_D | Key_Z | Key_L
  | Key_Other nat

datatype qt_modifier =
  ShiftModifier | ControlModifier | AltModifier | MetaModifier | KeypadModifier

record key_event =
  ev_key :: qt_key
  ev_modifiers :: "qt_modifier list"
  ev_text :: string

definition ESC :: char where
  "ESC = CHR 0x1B"

text \<open>The dictionary \<^verbatim>\<open>key_map\<close> of \<^verbatim>\<open>keyPressEvent\<close>, entry by entry.\<close>

definition key_map :: "qt_key \<rightharpoonup> string" where
  "key_map = map_of
     [(Key_Return, [CHR 0x0D]),
      (Key_Enter, [CHR 0x0D]),
      (Key_Backspace, [CHR 0x7F]),
      (Key_Tab, [CHR 0x09]),
      (Key_Escape, [ESC]),
      (Key_Up, ESC # ''[A''),
      (Key_Down, ESC # ''[B''),
      (Key_Right, ESC # ''[C''),
      (Key_Left, ESC # ''[D''),
      (Key_Home, ESC # ''[H''),
      (Key_End, ESC # ''[F''),
      (Key_PageUp, ESC # ''[5~''),
      (Key_PageDown, ESC # ''[6~''),
      (Key_Insert, ESC # ''[2~''),
      (Key_Delete, ESC # ''[3~'')]"

text \<open>
  \<^verbatim>\<open>keyPressEvent\<close>: the Ctrl block with its four early returns, then the dictionary, then
  the event's text when it is not empty.
\<close>

definition keyPressEvent :: "canvas \<Rightarrow> key_event \<Rightarrow> py_error + canvas" where
  "keyPressEvent c ev =
     (let key = ev_key ev; mods = ev_modifiers ev; txt = ev_text ev in
      if ControlModifier \<in> set mods \<and> key = Key_C then canvas_write c [CHR 0x03]
      else if ControlModifier \<in> set mods \<and> key = Key_D then canvas_write c [CHR 0x04]
      else if ControlModifier \<in> set mods \<and> key = Key_Z then canvas_write c [CHR 0x1A]
      else if ControlModifier \<in> set mods \<and> key = Key_L then canvas_write c [CHR 0x0C]
      else
        (case key_map key of
           Some s \<Rightarrow> canvas_write c s
         | None \<Rightarrow> if txt \<noteq> [] then canvas_write c txt else Inr c))"

text \<open>
  The input-mapping table of the specification, row by row, as a function from a key
  event to the bytes it sends (\<open>None\<close>: the table has no row for the event).
\<close>

fun spec_named_key :: "qt_key \<Rightarrow> string option" where
  "spec_named_key Key_Return = Some [CHR 0x0D]"
| "spec_named_key Key_Enter = Some [CHR 0x0D]"
| "spec_named_key Key_Backspace = Some [CHR 0x7F]"
| "spec_named_key Key_Tab = Some [CHR 0x09]"
| "spec_named_key Key_Escape = Some [CHR 0x1B]"
| "spec_named_key Key_Up = Some [CHR 0x1B, CHR ''['', CHR ''A'']"
| "spec_named_key Key_Down = Some [CHR 0x1B, CHR ''['', CHR ''B'']"
| "spec_named_key Key_Right = Some [CHR 0x1B, CHR ''['', CHR ''C'']"
| "spec_named_key Key_Left = Some [CHR 0x1B, CHR ''['', CHR ''D'']"
| "spec_named_key Key_Home = Some [CHR 0x1B, CHR ''['', CHR ''H'']"
| "spec_named_key Key_End = Some [CHR 0x1B, CHR ''['', CHR ''F'']"
| "spec_named_key Key_PageUp = Some [CHR 0x1B, CHR ''['', CHR ''5'', CHR ''~'']"
| "spec_named_key Key_PageDown = Some [CHR 0x1B, CHR ''['', CHR ''6'', CHR ''~'']"
| "spec_named_key Key_Insert = Some [CHR 0x1B, CHR ''['', CHR ''2'', CHR ''~'']"
| "spec_named_key Key_Delete = Some [CHR 0x1B, CHR ''['', CHR ''3'', CHR ''~'']"
| "spec_named_key _ = None"

fun spec_ctrl_key :: "qt_key \<Rightarrow> string option" where
  "spec_ctrl_key Key_C = Some [CHR 0x03]"
| "spec_ctrl_key Key_D = Some [CHR 0x04]"
| "spec_ctrl_key Key_Z = Some [CHR 0x1A]"
| "spec_ctrl_key Key_L = Some [CHR 0x0C]"
| "spec_ctrl_key _ = None"

text \<open>
  The last row of the table is for a printable key: one whose text is not empty and holds
  no control character (a byte below \<open>0x20\<close>, or \<open>0x7F\<close>).
\<close>

definition printable_char :: "char \<Rightarrow> bool" where
  "printable_char ch = (32 \<le> (of_char ch :: nat) \<and> (of_char ch :: nat) \<noteq> 127)"

definition printable :: "string \<Rightarrow> bool" where
  "printable s = (s \<noteq> [] \<and> list_all printable_char s)"

definition spec_input_mapping :: "key_event \<Rightarrow> string option" where
  "spec_input_mapping ev =
     (case (if ControlModifier \<in> set (ev_modifiers ev) then spec_ctrl_key (ev_key ev) else None) of
        Some bs \<Rightarrow> Some bs
      | None \<Rightarrow>
          (case spec_named_key (ev_key ev) of
             Some bs \<Rightarrow> Some bs
           | None \<Rightarrow> if printable (ev_text ev) then Some (ev_text ev) else None))"

subsection \<open>The libraries and the host, as the canvas calls them\<close>

text \<open>
  What the module imports and does not define: whether \<^verbatim>\<open>winpty\<close> and \<^verbatim>\<open>pyte\<close> were
  importable, \<^verbatim>\<open>PtyProcess.spawn\<close> (it may raise), \<^verbatim>\<open>pyte.Screen(cols, rows)\<close>,
  \<^verbatim>\<open>Stream.feed\<close> (it may raise, leaving the screen as far as it got), \<^verbatim>\<open>Screen.resize\<close>,
  \<^verbatim>\<open>bytes.decode("utf-8", errors="replace")\<close> (total: the handler replaces what it cannot
  decode), the font metrics and \<^verbatim>\<open>Path.home()\<close>.
\<close>

record env =
  HAS_WINPTY :: bool
  HAS_PYTE :: bool
  spawn :: "string list \<Rightarrow> string \<Rightarrow> int \<times> int \<Rightarrow> py_error + pty"
  new_screen :: "int \<Rightarrow> int \<Rightarrow> screen"
  feed :: "screen \<Rightarrow> string \<Rightarrow> screen \<times> py_error option"
  screen_resize :: "screen \<Rightarrow> int \<Rightarrow> int \<Rightarrow> screen"
  decode :: "string \<Rightarrow> string"
  font_char_width :: int
  font_char_height :: int
  home :: string

text \<open>\<^verbatim>\<open>__init__(cols=120, rows=30)\<close>; \<open>w\<close> is the identity of the new widget.\<close>

definition new_canvas :: "env \<Rightarrow> nat \<Rightarrow> int \<Rightarrow> int \<Rightarrow> canvas" where
  "new_canvas E w cs rs =
     \<lparr>wid = w, cols = cs, rows = rs,
      char_width = font_char_width E, char_height = font_char_height E,
      screen = (if HAS_PYTE E then Some (new_screen E cs rs) else None),
      fallback_buffer = [],
      pty = None, reader = None,
      working_dir = home E,
      has_focus_policy = True,
      updates = 0,
      log = []\<rparr>"

text \<open>
  \<^verbatim>\<open>start(working_dir=None, shell=None)\<close>. An argument that is \<^verbatim>\<open>None\<close> or empty is falsy.
  The \<^verbatim>\<open>try\<close> holds the spawn and the reader's creation; its handler logs and returns.
\<close>

definition start :: "env \<Rightarrow> canvas \<Rightarrow> string option \<Rightarrow> string option \<Rightarrow> py_error + canvas" where
  "start E c wd sh =
     (if \<not> HAS_WINPTY E then
        Inr (c\<lparr>log := log c @ [LogError ''winpty not installed! pip install pywinpty'']\<rparr>)
      else
        let c1 = (case wd of None \<Rightarrow> c
                   | Some d \<Rightarrow> if d \<noteq> [] then c\<lparr>working_dir := d\<rparr> else c);
            shell = (case sh of None \<Rightarrow> ''powershell.exe''
                      | Some s \<Rightarrow> if s \<noteq> [] then s else ''powershell.exe'')
        in
          (case spawn E [shell] (working_dir c1) (rows c1, cols c1) of
             Inr p \<Rightarrow>
               Inr (c1\<lparr>pty := Some p, reader := Some \<lparr>rd_running = True\<rparr>,
                       log := log c1 @ [LogInfo (''ConPTY started: '' @ shell)]\<rparr>)
           | Inl e \<Rightarrow>
               Inr (c1\<lparr>log := log c1 @
                        [LogError (''Failed to start ConPTY: '' @ error_text e)]\<rparr>)))"

text \<open>
  \<^verbatim>\<open>_on_data(data)\<close>: the whole body is one \<^verbatim>\<open>try\<close>; the handler of \<^verbatim>\<open>Exception\<close> logs.
  \<^verbatim>\<open>self.stream\<close> exists exactly when \<^verbatim>\<open>self.screen\<close> does.
\<close>

definition on_data :: "env \<Rightarrow> canvas \<Rightarrow> string \<Rightarrow> py_error + canvas" where
  "on_data E c d =
     (let txt = decode E d in
      case screen c of
        Some s \<Rightarrow>
          (case feed E s txt of
             (s', None) \<Rightarrow> Inr (c\<lparr>screen := Some s', updates := Suc (updates c)\<rparr>)
           | (s', Some e) \<Rightarrow>
               Inr (c\<lparr>screen := Some s',
                      log := log c @ [LogError (''Data handling error: '' @ error_text e)]\<rparr>))
      | None \<Rightarrow>
          Inr (c\<lparr>fallback_buffer := fallback_buffer c @ [txt], updates := Suc (updates c)\<rparr>))"

subsection \<open>Painting\<close>

datatype qcolor = Hex string | RGBA int int int int

datatype draw =
    FillAll qcolor
  | FillRect int int int int qcolor
  | DrawText int int string qcolor

definition COLORS_16 :: "string list" where
  "COLORS_16 =
     [''#0c0c0c'', ''#c50f1f'', ''#13a10e'', ''#c19c00'',
      ''#0037da'', ''#881798'', ''#3a96dd'', ''#cccccc'',
      ''#767676'', ''#e74856'', ''#16c60c'', ''#f9f1a5'',
      ''#3b78ff'', ''#b4009e'', ''#61d6d6'', ''#f2f2f2'']"

text \<open>Python's \<^verbatim>\<open>xs[i]\<close>: a negative index counts from the end; out of range raises.\<close>

definition py_index :: "'a list \<Rightarrow> int \<Rightarrow> py_error + 'a" where
  "py_index xs i =
     (if 0 \<le> i then
        (if i < int (length xs) then Inr (xs ! nat i) else Inl IndexError)
      else
        (if - int (length xs) \<le> i then Inr (xs ! nat (int (length xs) + i))
         else Inl IndexError))"

text \<open>Python's \<^verbatim>\<open>xs[i:]\<close>.\<close>

definition py_slice_from :: "'a list \<Rightarrow> int \<Rightarrow> 'a list" where
  "py_slice_from xs i =
     (if i < 0 then drop (nat (int (length xs) + i)) xs else drop (nat i) xs)"

text \<open>\<^verbatim>\<open>str.rstrip()\<close> on the whitespace of the ASCII range.\<close>

definition is_space :: "char \<Rightarrow> bool" where
  "is_space ch = (ch \<in> set [CHR 0x09, CHR 0x0A, CHR 0x0B, CHR 0x0C, CHR 0x0D,
                             CHR 0x1C, CHR 0x1D, CHR 0x1E, CHR 0x1F, CHR 0x20])"

definition rstrip :: "string \<Rightarrow> string" where
  "rstrip s = rev (dropWhile is_space (rev s))"

text \<open>
  The colour of the pen for one cell: \<^verbatim>\<open>fg = char.fg if char.fg != "default" else "white"\<close>,
  then the three branches of the mapping.
\<close>

definition fg_color :: "pyval \<Rightarrow> py_error + qcolor" where
  "fg_color v =
     (let fg = (if v \<noteq> PyStr ''default'' then v else PyStr ''white'') in
      case fg of
        PyInt n \<Rightarrow>
          if n < 16 then (case py_index COLORS_16 n of Inl e \<Rightarrow> Inl e | Inr h \<Rightarrow> Inr (Hex h))
          else Inr (Hex ''#cccccc'')
      | PyStr s \<Rightarrow> if s = ''white'' then Inr (Hex ''#cccccc'') else Inr (Hex ''#cccccc''))"

text \<open>The colour of the cell's background rectangle, when one is drawn.\<close>

definition bg_color :: "pyval \<Rightarrow> py_error + qcolor option" where
  "bg_color v =
     (let bg = (if v \<noteq> PyStr ''default'' then v else PyStr ''default'') in
      if bg \<noteq> PyStr ''default'' then
        (case bg of
           PyInt n \<Rightarrow>
             if n < 16 then
               (case py_index COLORS_16 n of Inl e \<Rightarrow> Inl e | Inr h \<Rightarrow> Inr (Some (Hex h)))
             else Inr None
         | PyStr s \<Rightarrow> Inr None)
      else Inr None)"

text \<open>
  The painter's commands are collected in order; an exception ends the painting and is
  returned beside the commands issued before it.
\<close>

definition paint_char :: "canvas \<Rightarrow> int \<Rightarrow> int \<Rightarrow> pchar \<Rightarrow> draw list \<times> py_error option" where
  "paint_char c row_idx x ch =
     (let y = (row_idx + 1) * char_height c in
      case fg_color (ch_fg ch) of
        Inl e \<Rightarrow> ([], Some e)
      | Inr pen \<Rightarrow>
          (case bg_color (ch_bg ch) of
             Inl e \<Rightarrow> ([], Some e)
           | Inr None \<Rightarrow> ([DrawText x (y - 3) (ch_data ch) pen], None)
           | Inr (Some b) \<Rightarrow>
               ([FillRect x (row_idx * char_height c) (char_width c) (char_height c) b,
                 DrawText x (y - 3) (ch_data ch) pen], None)))"

fun paint_row :: "canvas \<Rightarrow> int \<Rightarrow> int \<Rightarrow> pchar list \<Rightarrow> draw list \<times> py_error option" where
  "paint_row c row_idx x [] = ([], None)"
| "paint_row c row_idx x (ch # chs) =
     (case paint_char c row_idx x ch of
        (ds, Some e) \<Rightarrow> (ds, Some e)
      | (ds, None) \<Rightarrow>
          (case paint_row c row_idx (x + char_width c) chs of (ds', r) \<Rightarrow> (ds @ ds', r)))"

text \<open>
  The outer loop: \<^verbatim>\<open>row\<close> runs over what iterating \<^verbatim>\<open>self.screen.buffer\<close> yields, and the
  inner loop starts with \<^verbatim>\<open>enumerate(row)\<close>.
\<close>

fun paint_rows :: "canvas \<Rightarrow> int \<Rightarrow> pyobj list \<Rightarrow> draw list \<times> py_error option" where
  "paint_rows c row_idx [] = ([], None)"
| "paint_rows c row_idx (row # rs) =
     (case enumerate_row row of
        Inl e \<Rightarrow> ([], Some e)
      | Inr chs \<Rightarrow>
          (case paint_row c row_idx 0 chs of
             (ds, Some e) \<Rightarrow> (ds, Some e)
           | (ds, None) \<Rightarrow>
               (case paint_rows c (row_idx + 1) rs of (ds', r') \<Rightarrow> (ds @ ds', r'))))"

text \<open>The fallback without \<^verbatim>\<open>pyte\<close>: the last \<^verbatim>\<open>rows\<close> lines of \<^verbatim>\<open>_buffer\<close>.\<close>

fun paint_lines :: "canvas \<Rightarrow> int \<Rightarrow> string list \<Rightarrow> draw list" where
  "paint_lines c y [] = []"
| "paint_lines c y (l # ls) =
     DrawText 5 y (rstrip l) (Hex ''#cccccc'') # paint_lines c (y + char_height c) ls"

definition cursor_color :: qcolor where
  "cursor_color = RGBA 255 255 255 180"

text \<open>A command is the cursor block when it fills a rectangle in the cursor's colour.\<close>

fun is_cursor_block :: "draw \<Rightarrow> bool" where
  "is_cursor_block (FillRect x y w h col) = (col = cursor_color)"
| "is_cursor_block d = False"

definition cursor_in_bounds :: "canvas \<Rightarrow> screen \<Rightarrow> bool" where
  "cursor_in_bounds c s =
     ((0 \<le> cursor_y s \<and> cursor_y s < rows c) \<and> (0 \<le> cursor_x s \<and> cursor_x s < cols c))"

definition paintEvent :: "canvas \<Rightarrow> draw list \<times> py_error option" where
  "paintEvent c =
     (case screen c of
        None \<Rightarrow>
          (FillAll (Hex ''#0c0c0c'') #
             paint_lines c (char_height c) (py_slice_from (fallback_buffer c) (- rows c)), None)
      | Some s \<Rightarrow>
          (case paint_rows c 0 (map IntObj (dict_iter (scr_buffer s))) of
             (ds, Some e) \<Rightarrow> (FillAll (Hex ''#0c0c0c'') # ds, Some e)
           | (ds, None) \<Rightarrow>
               (FillAll (Hex ''#0c0c0c'') # ds @
                  (if cursor_in_bounds c s then
                     [FillRect (cursor_x s * char_width c) (cursor_y s * char_height c)
                        (char_width c) (char_height c) cursor_color]
                   else []),
                None)))"

subsection \<open>Resizing and stopping\<close>

text \<open>Python's \<^verbatim>\<open>a // b\<close> on integers: floor division, \<^verbatim>\<open>ZeroDivisionError\<close> on zero.\<close>

definition py_floordiv :: "int \<Rightarrow> int \<Rightarrow> py_error + int" where
  "py_floordiv a b = (if b \<noteq> 0 then Inr (a div b) else Inl ZeroDivisionError)"

text \<open>
  \<^verbatim>\<open>resizeEvent\<close>; \<open>w\<close> and \<open>h\<close> are what \<^verbatim>\<open>self.width()\<close> and \<^verbatim>\<open>self.height()\<close> answer.
  The \<^verbatim>\<open>setwinsize\<close> call sits in a \<^verbatim>\<open>try\<close> whose bare \<^verbatim>\<open>except\<close> is \<^verbatim>\<open>pass\<close>.
\<close>

definition resizeEvent :: "env \<Rightarrow> canvas \<Rightarrow> int \<Rightarrow> int \<Rightarrow> py_error + canvas" where
  "resizeEvent E c w h =
     (case py_floordiv w (char_width c) of
        Inl e \<Rightarrow> Inl e
      | Inr qc \<Rightarrow>
          (case py_floordiv h (char_height c) of
             Inl e \<Rightarrow> Inl e
           | Inr qr \<Rightarrow>
               let new_cols = max 80 qc; new_rows = max 24 qr in
               if new_cols \<noteq> cols c \<or> new_rows \<noteq> rows c then
                 let c1 = c\<lparr>cols := new_cols, rows := new_rows\<rparr>;
                     c2 = (case screen c1 of
                             None \<Rightarrow> c1
                           | Some s \<Rightarrow> c1\<lparr>screen := Some (screen_resize E s new_rows new_cols)\<rparr>)
                 in
                   (case pty c2 of
                      None \<Rightarrow> Inr c2
                    | Some p \<Rightarrow>
                        if isalive p then
                          (case setwinsize p new_rows new_cols of
                             Inr p' \<Rightarrow> Inr (c2\<lparr>pty := Some p'\<rparr>)
                           | Inl e \<Rightarrow> Inr c2)
                        else Inr c2)
               else Inr c))"

text \<open>
  \<^verbatim>\<open>WindowsTerminalCanvas.stop\<close>: \<^verbatim>\<open>reader.stop()\<close> clears the flag, \<^verbatim>\<open>reader.wait(1000)\<close>
  waits at most a second, then the process is terminated when it is alive. Neither
  \<^verbatim>\<open>wait\<close> nor \<^verbatim>\<open>terminate\<close> is taken to raise.
\<close>

definition stop :: "canvas \<Rightarrow> canvas" where
  "stop c =
     (let c1 = (case reader c of
                  None \<Rightarrow> c
                | Some r \<Rightarrow> c\<lparr>reader := Some (r\<lparr>rd_running := False\<rparr>)\<rparr>)
      in case pty c1 of
           None \<Rightarrow> c1
         | Some p \<Rightarrow> if isalive p then c1\<lparr>pty := Some (terminate p)\<rparr> else c1)"

section \<open>The tab container \<^verbatim>\<open>TerminalTabWidget\<close>\<close>

text \<open>
  The \<^verbatim>\<open>QTabWidget\<close> is the list of its pages with their labels and the current index
  (\<open>-1\<close> when there is no page). A page taken out by \<^verbatim>\<open>removeTab\<close> is not deleted: it
  stays a child of the container. \<open>focus_widget\<close> is the widget on which \<^verbatim>\<open>setFocus()\<close>
  was last called.
\<close>

record tab_widget =
  tabs :: "(string \<times> canvas) list"
  current_index :: int
  detached :: "canvas list"
  focus_widget :: "nat option"
  next_wid :: nat

definition count :: "tab_widget \<Rightarrow> int" where
  "count tw = int (length (tabs tw))"

definition addTab :: "tab_widget \<Rightarrow> canvas \<Rightarrow> string \<Rightarrow> tab_widget \<times> int" where
  "addTab tw c label =
     (tw\<lparr>tabs := tabs tw @ [(label, c)],
         current_index := (if tabs tw = [] then 0 else current_index tw)\<rparr>,
      count tw)"

definition setCurrentIndex :: "tab_widget \<Rightarrow> int \<Rightarrow> tab_widget" where
  "setCurrentIndex tw i = (if 0 \<le> i \<and> i < count tw then tw\<lparr>current_index := i\<rparr> else tw)"

definition widget :: "tab_widget \<Rightarrow> int \<Rightarrow> canvas option" where
  "widget tw i = (if 0 \<le> i \<and> i < count tw then Some (snd (tabs tw ! nat i)) else None)"

text \<open>\<^verbatim>\<open>removeTab\<close>: the tab to the right of a removed current tab becomes current.\<close>

definition removeTab :: "tab_widget \<Rightarrow> int \<Rightarrow> tab_widget" where
  "removeTab tw i =
     (if 0 \<le> i \<and> i < count tw then
        let rest = take (nat i) (tabs tw) @ drop (Suc (nat i)) (tabs tw);
            n = int (length rest);
            cur = current_index tw
        in tw\<lparr>tabs := rest,
              detached := detached tw @ [snd (tabs tw ! nat i)],
              current_index := (if n = 0 then - 1
                                else if i < cur then cur - 1
                                else if i = cur then min i (n - 1)
                                else cur)\<rparr>
      else tw)"

text \<open>\<^verbatim>\<open>str.lower()\<close> on ASCII letters, \<^verbatim>\<open>sub in s\<close>, and the decimal digits of \<^verbatim>\<open>f"{n}"\<close>.\<close>

definition lower_char :: "char \<Rightarrow> char" where
  "lower_char ch =
     (let n = (of_char ch :: nat) in if 65 \<le> n \<and> n \<le> 90 then char_of (n + 32) else ch)"

definition lower :: "string \<Rightarrow> string" where
  "lower s = map lower_char s"

fun starts_with :: "'a list \<Rightarrow> 'a list \<Rightarrow> bool" where
  "starts_with [] ys = True"
| "starts_with (x # xs) [] = False"
| "starts_with (x # xs) (y # ys) = (x = y \<and> starts_with xs ys)"

fun contains :: "'a list \<Rightarrow> 'a list \<Rightarrow> bool" where
  "contains sub [] = (sub = [])"
| "contains sub (y # ys) = (starts_with sub (y # ys) \<or> contains sub ys)"

fun show_nat :: "nat \<Rightarrow> string" where
  "show_nat n =
     (if n < 10 then [char_of (48 + n)]
      else show_nat (n div 10) @ [char_of (48 + n mod 10)])"

declare show_nat.simps [simp del]

text \<open>
  What \<^verbatim>\<open>_add_terminal\<close> receives as \<^verbatim>\<open>shell\<close>: a string (the default of the parameter when
  the timer or \<^verbatim>\<open>_close_tab\<close> calls it without argument, \<open>cmd.exe\<close> from the lambda of the
  CMD button), or the \<^verbatim>\<open>checked\<close> flag of \<^verbatim>\<open>clicked(bool)\<close>, which the \<open>+\<close> button's signal,
  connected to the method itself, passes as the first argument.
\<close>

datatype shell_arg = ShellStr string | Checked bool

text \<open>
  \<^verbatim>\<open>_add_terminal(shell="powershell.exe")\<close>: the canvas is made first; \<^verbatim>\<open>shell.lower()\<close>
  raises \<^verbatim>\<open>AttributeError\<close> on a \<^verbatim>\<open>bool\<close>; the page is added and made current before
  \<^verbatim>\<open>terminal.start(shell=shell)\<close> runs, and \<^verbatim>\<open>start\<close> works on the page that is already in
  the container.
\<close>

definition add_terminal :: "env \<Rightarrow> tab_widget \<Rightarrow> shell_arg \<Rightarrow> py_error + tab_widget" where
  "add_terminal E tw arg =
     (let terminal = new_canvas E (next_wid tw) 120 30 in
      case arg of
        Checked b \<Rightarrow> Inl AttributeError
      | ShellStr shell \<Rightarrow>
          let shell_name =
                (if contains ''powershell'' (lower shell) then ''PowerShell'' else ''CMD'');
              label = shell_name @ '' '' @ show_nat (nat (count tw + 1));
              (tw1, idx) = addTab (tw\<lparr>next_wid := Suc (next_wid tw)\<rparr>) terminal label;
              tw2 = setCurrentIndex tw1 idx
          in case start E terminal None (Some shell) of
               Inl e \<Rightarrow> Inl e
             | Inr terminal' \<Rightarrow>
                 Inr (tw2\<lparr>tabs := (tabs tw2)[nat idx := (label, terminal')],
                          focus_widget := Some (wid terminal')\<rparr>))"

text \<open>\<^verbatim>\<open>_close_tab(index)\<close>; the replacement is made by \<^verbatim>\<open>self._add_terminal()\<close>.\<close>

definition close_tab :: "env \<Rightarrow> tab_widget \<Rightarrow> int \<Rightarrow> py_error + tab_widget" where
  "close_tab E tw index =
     (let tw1 = (case widget tw index of
                   None \<Rightarrow> tw
                 | Some w \<Rightarrow>
                     tw\<lparr>tabs := (tabs tw)[nat index := (fst (tabs tw ! nat index), stop w)]\<rparr>);
          tw2 = removeTab tw1 index
      in if count tw2 = 0 then add_terminal E tw2 (ShellStr ''powershell.exe'') else Inr tw2)"

section \<open>The reader thread \<^verbatim>\<open>ConPTYReader\<close>\<close>

text \<open>
  \<^verbatim>\<open>run\<close> is driven by what happens around it. One pass of the loop meets: the answer of
  \<^verbatim>\<open>isalive()\<close> at the loop head; what \<^verbatim>\<open>pty.read(4096)\<close> does (it returns text, possibly
  empty; it raises; or it stays blocked, the call having neither timeout nor
  cancellation); and whether the other thread calls \<^verbatim>\<open>stop()\<close> during the pass. The passes
  not yet run are a list; when it is used up the loop is still turning.
\<close>

datatype read_outcome = ReadReturns string | ReadRaises py_error | ReadBlocks

record iteration =
  it_alive :: bool
  it_read :: read_outcome
  it_stop :: bool

record reader_thread =
  rt_running :: bool
  rt_reads :: nat
  rt_emitted :: "string list"
  rt_log :: "log_entry list"

text \<open>
  Where the thread is once the passes given are used up: out of the loop, \<^verbatim>\<open>finished.emit\<close>
  having been called with the exit code (the Python integer handed to the signal); inside
  \<^verbatim>\<open>pty.read\<close>, which has not returned; or still turning.
\<close>

datatype thread_state =
    Exited reader_thread int
  | BlockedInRead reader_thread
  | Looping reader_thread

text \<open>\<^verbatim>\<open>ConPTYReader.stop\<close>.\<close>

definition reader_stop :: "reader_thread \<Rightarrow> reader_thread" where
  "reader_stop r = r\<lparr>rt_running := False\<rparr>"

text \<open>\<^verbatim>\<open>self.pty.exitstatus or 0\<close>.\<close>

definition exit_code :: "int option \<Rightarrow> int" where
  "exit_code st = (case st of None \<Rightarrow> 0 | Some v \<Rightarrow> if v \<noteq> 0 then v else 0)"

fun run :: "int option \<Rightarrow> reader_thread \<Rightarrow> iteration list \<Rightarrow> thread_state" where
  "run st r [] = (if \<not> rt_running r then Exited r (exit_code st) else Looping r)"
| "run st r (e # es) =
     (if \<not> (rt_running r \<and> it_alive e) then Exited r (exit_code st)
      else
        let r1 = r\<lparr>rt_reads := Suc (rt_reads r)\<rparr> in
        case it_read e of
          ReadBlocks \<Rightarrow> BlockedInRead (if it_stop e then reader_stop r1 else r1)
        | ReadReturns d \<Rightarrow>
            let r2 = (if d \<noteq> [] then r1\<lparr>rt_emitted := rt_emitted r1 @ [d]\<rparr> else r1)
            in run st (if it_stop e then reader_stop r2 else r2) es
        | ReadRaises err \<Rightarrow>
            let r2 = (if it_stop e then reader_stop r1 else r1);
                r3 = (if rt_running r2
                      then r2\<lparr>rt_log := rt_log r2 @
                                [LogError (''ConPTY read error: '' @ error_text err)]\<rparr>
                      else r2)
            in Exited r3 (exit_code st))"

section \<open>Concrete inputs\<close>

definition example_pty :: pty where
  "example_pty =
     \<lparr>pty_argv = [''powershell.exe''], pty_cwd = ''C:/Users/me'', pty_dimensions = (30, 120),
      pty_alive = True, pty_writes = [], pty_write_raises = False,
      pty_setwinsize_raises = False\<rparr>"

definition example_screen :: "int \<Rightarrow> int \<Rightarrow> screen" where
  "example_screen cs rs =
     \<lparr>scr_buffer = [], cursor_x = 0, cursor_y = 0, scr_lines = rs, scr_columns = cs\<rparr>"

text \<open>An environment in which every library call succeeds.\<close>

definition example_env :: env where
  "example_env =
     \<lparr>HAS_WINPTY = True, HAS_PYTE = True,
      spawn = (\<lambda>argv cwd dims.
                 Inr (example_pty\<lparr>pty_argv := argv, pty_cwd := cwd, pty_dimensions := dims\<rparr>)),
      new_screen = example_screen,
      feed = (\<lambda>s t. (s, None)),
      screen_resize = (\<lambda>s r c. s\<lparr>scr_lines := r, scr_columns := c\<rparr>),
      decode = (\<lambda>d. d),
      font_char_width = 9, font_char_height = 18,
      home = ''C:/Users/me''\<rparr>"

text \<open>The same environment, except that \<^verbatim>\<open>PtyProcess.spawn\<close> raises.\<close>

definition failing_env :: env where
  "failing_env = example_env\<lparr>spawn := (\<lambda>argv cwd dims. Inl (Exception ''cannot spawn''))\<rparr>"

definition example_canvas :: canvas where
  "example_canvas =
     (new_canvas example_env 0 120 30)
       \<lparr>pty := Some example_pty, reader := Some \<lparr>rd_running = True\<rparr>\<rparr>"

text \<open>A canvas whose shell has exited.\<close>

definition dead_canvas :: canvas where
  "dead_canvas = example_canvas\<lparr>pty := Some (example_pty\<lparr>pty_alive := False\<rparr>)\<rparr>"

text \<open>A canvas whose PTY refuses \<^verbatim>\<open>setwinsize\<close>.\<close>

definition stubborn_canvas :: canvas where
  "stubborn_canvas =
     example_canvas\<lparr>pty := Some (example_pty\<lparr>pty_setwinsize_raises := True\<rparr>)\<rparr>"

definition empty_tabs :: tab_widget where
  "empty_tabs =
     \<lparr>tabs = [], current_index = - 1, detached = [], focus_widget = None, next_wid = 0\<rparr>"

text \<open>A container with one live tab.\<close>

definition one_tab :: tab_widget where
  "one_tab =
     \<lparr>tabs = [(''PowerShell 1'', example_canvas)], current_index = 0, detached = [],
      focus_widget = Some 0, next_wid = 1\<rparr>"

text \<open>A cell with the foreground given by name and the default background.\<close>

definition named_cell :: "string \<Rightarrow> char \<Rightarrow> pchar" where
  "named_cell colour ch = \<lparr>ch_data = [ch], ch_fg = PyStr colour, ch_bg = PyStr ''default''\<rparr>"

text \<open>
  A screen holding line 0 with \<open>Red\<close> in red and \<open>Normal\<close> in the default colour, the
  cursor behind the text, and the canvas showing it.
\<close>

definition red_normal_screen :: screen where
  "red_normal_screen =
     \<lparr>scr_buffer =
        [(0, [(0, named_cell ''red'' CHR ''R''), (1, named_cell ''red'' CHR ''e''),
              (2, named_cell ''red'' CHR ''d''), (3, named_cell ''default'' CHR ''N''),
              (4, named_cell ''default'' CHR ''o''), (5, named_cell ''default'' CHR ''r''),
              (6, named_cell ''default'' CHR ''m''), (7, named_cell ''default'' CHR ''a''),
              (8, named_cell ''default'' CHR ''l'')])],
      cursor_x = 9, cursor_y = 0, scr_lines = 30, scr_columns = 120\<rparr>"

definition red_normal_canvas :: canvas where
  "red_normal_canvas = example_canvas\<lparr>screen := Some red_normal_screen\<rparr>"

text \<open>A canvas whose cursor lies right of the last column, over a line of one cell.\<close>

definition offscreen_screen :: screen where
  "offscreen_screen =
     \<lparr>scr_buffer = [(0, [(0, named_cell ''default'' CHR ''a'')])],
      cursor_x = 150, cursor_y = 0, scr_lines = 30, scr_columns = 120\<rparr>"

definition offscreen_canvas :: canvas where
  "offscreen_canvas = example_canvas\<lparr>screen := Some offscreen_screen\<rparr>"

text \<open>A reader that has just been started, and a pass in which the PTY is alive and silent
  while \<^verbatim>\<open>stop()\<close> is called.\<close>

definition fresh_reader :: reader_thread where
  "fresh_reader = \<lparr>rt_running = True, rt_reads = 0, rt_emitted = [], rt_log = []\<rparr>"

definition silent_pass :: iteration where
  "silent_pass = \<lparr>it_alive = True, it_read = ReadBlocks, it_stop = True\<rparr>"

text \<open>A pass in which the read returns nothing while \<^verbatim>\<open>stop()\<close> is called.\<close>

definition empty_pass :: iteration where
  "empty_pass = \<lparr>it_alive = True, it_read = ReadReturns [], it_stop = True\<rparr>"

text \<open>Ctrl+A: the key \<open>A\<close> (code \<open>0x41\<close>) with the text Qt gives it, the byte \<open>0x01\<close>.\<close>

definition ctrl_a :: key_event where
  "ctrl_a = \<lparr>ev_key = Key_Other 65, ev_modifiers = [ControlModifier], ev_text = [CHR 0x01]\<rparr>"

definition ctrl_c :: key_event where
  "ctrl_c = \<lparr>ev_key = Key_C, ev_modifiers = [ControlModifier], ev_text = [CHR 0x03]\<rparr>"

section \<open>Key input and writes\<close>

lemma key_map_spec: "key_map k = spec_named_key k"
  by (cases k) (simp_all add: key_map_def ESC_def)

lemma canvas_write_alive:
  "pty c = Some p \<Longrightarrow> pty_alive p \<Longrightarrow>
   \<exists>c'. canvas_write c d = Inr c' \<and> pty c' = Some (p\<lparr>pty_writes := pty_writes p @ [d]\<rparr>)"
  by (simp add: canvas_write_def isalive_def pty_write_def)

text \<open>
  C1, as the code has it. On a canvas whose PTY is alive, \<^verbatim>\<open>keyPressEvent\<close> returns
  normally and, for an event the specification's input-mapping table has a row for, hands
  to the PTY's \<^verbatim>\<open>write\<close> exactly the bytes of that row, in one call. For an event the table
  has no row for, it hands over the event's text whenever that text is not empty, control
  characters included, and makes no call when the text is empty. Nothing else of the PTY
  changes.
\<close>

theorem keyPressEvent_input_mapping:
  assumes "pty c = Some p" and "pty_alive p"
  shows "\<exists>c'. keyPressEvent c ev = Inr c' \<and>
           pty c' = Some (p\<lparr>pty_writes := pty_writes p @
                   (case spec_input_mapping ev of
                      Some bs \<Rightarrow> [bs]
                    | None \<Rightarrow> if ev_text ev = [] then [] else [ev_text ev])\<rparr>)"
proof -
  have w: "\<And>d. \<exists>c'. canvas_write c d = Inr c' \<and>
              pty c' = Some (p\<lparr>pty_writes := pty_writes p @ [d]\<rparr>)"
    using assms by (rule canvas_write_alive)
  show ?thesis
  proof (cases "ControlModifier \<in> set (ev_modifiers ev)")
    case True
    then show ?thesis
      using assms(1) w
      by (cases "ev_key ev")
         (simp_all add: keyPressEvent_def spec_input_mapping_def key_map_spec printable_def)
  next
    case False
    then show ?thesis
      using assms(1) w
      by (cases "spec_named_key (ev_key ev)")
         (simp_all add: keyPressEvent_def spec_input_mapping_def key_map_spec printable_def)
  qed
qed

text \<open>Ctrl+C on a live session: the one byte \<open>0x03\<close> is written.\<close>

theorem keyPressEvent_input_mapping_witness:
  "pty example_canvas = Some example_pty \<and> pty_alive example_pty \<and>
   (\<exists>c'. keyPressEvent example_canvas ctrl_c = Inr c' \<and>
      pty c' = Some (example_pty\<lparr>pty_writes := [[CHR 0x03]]\<rparr>))"
proof -
  have a: "pty example_canvas = Some example_pty"
    by (simp add: example_canvas_def)
  have b: "pty_alive example_pty"
    by (simp add: example_pty_def)
  have s: "spec_input_mapping ctrl_c = Some [CHR 0x03]"
    by (simp add: spec_input_mapping_def ctrl_c_def)
  have e: "pty_writes example_pty = []"
    by (simp add: example_pty_def)
  from keyPressEvent_input_mapping [OF a b, of ctrl_c] show ?thesis
    using a b by (simp add: s e)
qed

text \<open>
  The claim that no key event produces bytes outside the table fails: Ctrl+A is neither
  one of the named keys, nor one of the four Ctrl rows, nor a printable key, so the table
  has no row for it, and \<^verbatim>\<open>keyPressEvent\<close> writes its text, the byte \<open>0x01\<close>.
\<close>

theorem ctrl_a_outside_table:
  "spec_input_mapping ctrl_a = None \<and>
   isl (keyPressEvent example_canvas ctrl_a) = False \<and>
   pty (projr (keyPressEvent example_canvas ctrl_a)) =
     Some (example_pty\<lparr>pty_writes := [[CHR 0x01]]\<rparr>)"
proof -
  have s: "spec_input_mapping ctrl_a = None"
    by (simp add: spec_input_mapping_def ctrl_a_def printable_def printable_char_def)
  have k: "key_map (Key_Other 65) = None"
    by (simp add: key_map_def)
  have w: "keyPressEvent example_canvas ctrl_a = canvas_write example_canvas [CHR 0x01]"
    by (simp add: keyPressEvent_def ctrl_a_def k)
  have p: "canvas_write example_canvas [CHR 0x01] =
             Inr (example_canvas\<lparr>pty := Some (example_pty\<lparr>pty_writes := [[CHR 0x01]]\<rparr>)\<rparr>)"
    by (simp add: canvas_write_def isalive_def pty_write_def example_canvas_def example_pty_def)
  show ?thesis
    by (simp add: s w p)
qed

text \<open>
  C8, as the code has it. A write to a session whose process has exited changes nothing
  at all: no byte reaches the PTY, no exception leaves \<^verbatim>\<open>_write\<close>, and the log stays as it
  was, since the guard \<^verbatim>\<open>self.pty.isalive()\<close> skips the \<^verbatim>\<open>try\<close> that holds the only
  \<^verbatim>\<open>logger.error\<close>.
\<close>

theorem dead_write_dropped_silently:
  assumes "pty c = Some p" and "\<not> pty_alive p"
  shows "canvas_write c d = Inr c"
  using assms by (simp add: canvas_write_def isalive_def)

theorem dead_write_dropped_silently_witness:
  "pty dead_canvas = Some (example_pty\<lparr>pty_alive := False\<rparr>) \<and>
   \<not> pty_alive (example_pty\<lparr>pty_alive := False\<rparr>) \<and>
   canvas_write dead_canvas ''dir'' = Inr dead_canvas"
proof -
  have a: "pty dead_canvas = Some (example_pty\<lparr>pty_alive := False\<rparr>)"
    by (simp add: dead_canvas_def)
  have b: "\<not> pty_alive (example_pty\<lparr>pty_alive := False\<rparr>)"
    by simp
  from dead_write_dropped_silently [OF a b] a b show ?thesis
    by simp
qed

text \<open>
  The claim that the dropped write is logged fails: writing \<open>dir\<close> to the dead session
  leaves the log empty.
\<close>

theorem dead_write_not_logged:
  "\<not> isalive (example_pty\<lparr>pty_alive := False\<rparr>) \<and>
   log (projr (canvas_write dead_canvas ''dir'')) = log dead_canvas \<and>
   log dead_canvas = []"
  by (simp add: canvas_write_def isalive_def dead_canvas_def example_canvas_def new_canvas_def)

section \<open>Incoming data\<close>

text \<open>
  C3. For every byte sequence, whatever the decoder makes of it and whatever the
  interpreter's \<^verbatim>\<open>feed\<close> does with the text (raising included), \<^verbatim>\<open>_on_data\<close> returns
  normally; the PTY and the dimensions of the canvas are untouched.
\<close>

theorem on_data_never_raises:
  "\<exists>c'. on_data E c d = Inr c' \<and> pty c' = pty c \<and> cols c' = cols c \<and> rows c' = rows c"
  by (simp add: on_data_def Let_def split: option.split prod.split)

section \<open>Starting a session\<close>

lemma start_returns: "\<exists>c'. start E c wd sh = Inr c' \<and> wid c' = wid c"
  by (simp add: start_def Let_def split: option.split sum.split)

lemma start_spawn_fails:
  assumes "HAS_WINPTY E"
    and "spawn E [if shell = [] then ''powershell.exe'' else shell] (working_dir c) (rows c, cols c) = Inl e"
  shows "start E c None (Some shell) =
           Inr (c\<lparr>log := log c @ [LogError (''Failed to start ConPTY: '' @ error_text e)]\<rparr>)"
  using assms by (cases "shell = []") (simp_all add: start_def Let_def)

text \<open>
  C5, as the code has it. When \<^verbatim>\<open>PtyProcess.spawn\<close> raises, \<^verbatim>\<open>start\<close> catches the exception
  and logs it, and \<^verbatim>\<open>_add_terminal\<close> returns normally: the tab, added before \<^verbatim>\<open>start\<close> ran,
  stays in the collection as the last and current one, holding a canvas with no PTY and
  no reader whose log has the one entry of the failure.
\<close>

theorem spawn_failure_logged_tab_kept:
  assumes "HAS_WINPTY E"
    and "spawn E [if shell = [] then ''powershell.exe'' else shell] (home E) (30, 120) = Inl e"
  shows "\<exists>tw' label c.
           add_terminal E tw (ShellStr shell) = Inr tw' \<and>
           tabs tw' = tabs tw @ [(label, c)] \<and>
           current_index tw' = count tw \<and>
           pty c = None \<and> reader c = None \<and>
           log c = [LogError (''Failed to start ConPTY: '' @ error_text e)]"
proof -
  let ?t = "new_canvas E (next_wid tw) 120 30"
  have s: "start E ?t None (Some shell) =
             Inr (?t\<lparr>log := log ?t @ [LogError (''Failed to start ConPTY: '' @ error_text e)]\<rparr>)"
    using assms by (intro start_spawn_fails) (simp_all add: new_canvas_def)
  show ?thesis
    by (simp add: add_terminal_def Let_def addTab_def setCurrentIndex_def count_def s)
       (simp add: new_canvas_def)
qed

theorem spawn_failure_logged_tab_kept_witness:
  "HAS_WINPTY failing_env \<and>
   spawn failing_env [''cmd.exe''] (home failing_env) (30, 120) = Inl (Exception ''cannot spawn'') \<and>
   (\<exists>tw' label c.
      add_terminal failing_env empty_tabs (ShellStr ''cmd.exe'') = Inr tw' \<and>
      tabs tw' = [(label, c)] \<and> current_index tw' = 0 \<and>
      pty c = None \<and> reader c = None \<and>
      log c = [LogError ''Failed to start ConPTY: cannot spawn''])"
proof -
  have a: "HAS_WINPTY failing_env"
    by (simp add: failing_env_def example_env_def)
  have b: "spawn failing_env [if ''cmd.exe'' = [] then ''powershell.exe'' else ''cmd.exe'']
             (home failing_env) (30, 120) = Inl (Exception ''cannot spawn'')"
    by (simp add: failing_env_def)
  have t: "tabs empty_tabs = []" "count empty_tabs = 0"
    by (simp_all add: empty_tabs_def count_def)
  from spawn_failure_logged_tab_kept [OF a b, of empty_tabs] show ?thesis
    using a b by (simp add: t)
qed

text \<open>
  The claim that the failure is surfaced and the tab not created fails: with a spawn that
  raises, adding a terminal to an empty container returns normally and leaves one tab.
\<close>

theorem spawn_failure_not_surfaced:
  "spawn failing_env [''powershell.exe''] (home failing_env) (30, 120) = Inl (Exception ''cannot spawn'') \<and>
   isl (add_terminal failing_env empty_tabs (ShellStr ''powershell.exe'')) = False \<and>
   length (tabs (projr (add_terminal failing_env empty_tabs (ShellStr ''powershell.exe'')))) = 1"
  by (simp add: add_terminal_def Let_def addTab_def setCurrentIndex_def count_def start_def
      failing_env_def example_env_def empty_tabs_def new_canvas_def)

section \<open>Resizing\<close>

text \<open>
  C6, as the code has it. For a character cell of non-zero width and height,
  \<^verbatim>\<open>resizeEvent\<close> returns normally with \<open>cols = max 80 (w div char_width)\<close> and
  \<open>rows = max 24 (h div char_height)\<close>. When neither differs from the current dimensions
  nothing changes. Otherwise the screen, when there is one, is resized to the new
  dimensions, and a PTY that is alive is told them; when its \<^verbatim>\<open>setwinsize\<close> raises, the
  PTY keeps its size, nothing is surfaced, and nothing is logged: the log is the same in
  every case.
\<close>

theorem resizeEvent_dimensions:
  assumes "char_width c \<noteq> 0" and "char_height c \<noteq> 0"
    and "new_cols = max 80 (w div char_width c)"
    and "new_rows = max 24 (h div char_height c)"
  shows "\<exists>c'. resizeEvent E c w h = Inr c' \<and>
           cols c' = new_cols \<and> rows c' = new_rows \<and> log c' = log c \<and>
           (if new_cols = cols c \<and> new_rows = rows c then c' = c
            else screen c' = map_option (\<lambda>s. screen_resize E s new_rows new_cols) (screen c) \<and>
                 pty c' = map_option
                   (\<lambda>p. if pty_alive p \<and> \<not> pty_setwinsize_raises p
                        then p\<lparr>pty_dimensions := (new_rows, new_cols)\<rparr> else p) (pty c))"
  using assms
  by (auto simp add: resizeEvent_def py_floordiv_def Let_def isalive_def setwinsize_def
      split: option.split sum.split)

theorem resizeEvent_dimensions_witness:
  "char_width example_canvas \<noteq> 0 \<and> char_height example_canvas \<noteq> 0 \<and>
   (200::int) = max 80 (1800 div char_width example_canvas) \<and>
   (50::int) = max 24 (900 div char_height example_canvas) \<and>
   (\<exists>c'. resizeEvent example_env example_canvas 1800 900 = Inr c' \<and>
      cols c' = 200 \<and> rows c' = 50 \<and> log c' = [] \<and>
      screen c' = Some ((example_screen 120 30)\<lparr>scr_lines := 50, scr_columns := 200\<rparr>) \<and>
      pty c' = Some (example_pty\<lparr>pty_dimensions := (50, 200)\<rparr>))"
proof -
  have v: "cols example_canvas = 120" "rows example_canvas = 30" "log example_canvas = []"
    "screen example_canvas = Some (example_screen 120 30)"
    "pty example_canvas = Some example_pty"
    "pty_alive example_pty" "\<not> pty_setwinsize_raises example_pty"
    "screen_resize example_env = (\<lambda>s r c. s\<lparr>scr_lines := r, scr_columns := c\<rparr>)"
    "char_width example_canvas = 9" "char_height example_canvas = 18"
    by (simp_all add: example_canvas_def new_canvas_def example_env_def example_pty_def)
  have a: "char_width example_canvas \<noteq> 0" "char_height example_canvas \<noteq> 0"
    by (simp_all add: v)
  have b: "(200::int) = max 80 (1800 div char_width example_canvas)"
    "(50::int) = max 24 (900 div char_height example_canvas)"
    by (simp_all add: v)
  show ?thesis
  proof (intro conjI)
    show "\<exists>c'. resizeEvent example_env example_canvas 1800 900 = Inr c' \<and>
      cols c' = 200 \<and> rows c' = 50 \<and> log c' = [] \<and>
      screen c' = Some ((example_screen 120 30)\<lparr>scr_lines := 50, scr_columns := 200\<rparr>) \<and>
      pty c' = Some (example_pty\<lparr>pty_dimensions := (50, 200)\<rparr>)"
      using resizeEvent_dimensions [OF a b, of example_env] by (simp add: v)
  qed (rule a b)+
qed

text \<open>
  The claim that a PTY-resize failure is logged fails: on a canvas whose PTY raises in
  \<^verbatim>\<open>setwinsize\<close>, a resize to 1800 by 900 pixels returns normally with the new rows and an
  empty log.
\<close>

theorem resize_failure_not_logged:
  "setwinsize (example_pty\<lparr>pty_setwinsize_raises := True\<rparr>) 50 200 = Inl (Exception ''setwinsize failed'') \<and>
   isl (resizeEvent example_env stubborn_canvas 1800 900) = False \<and>
   rows (projr (resizeEvent example_env stubborn_canvas 1800 900)) = 50 \<and>
   log (projr (resizeEvent example_env stubborn_canvas 1800 900)) = []"
  by (simp add: resizeEvent_def py_floordiv_def Let_def isalive_def setwinsize_def
      stubborn_canvas_def example_canvas_def new_canvas_def example_env_def example_pty_def)

section \<open>Adding and closing tabs\<close>

lemma add_terminal_result:
  "\<exists>c'. start E (new_canvas E (next_wid tw) 120 30) None (Some sh) = Inr c' \<and>
        wid c' = next_wid tw \<and>
        add_terminal E tw (ShellStr sh) =
          Inr (tw\<lparr>tabs := tabs tw @
                    [((if contains ''powershell'' (lower sh) then ''PowerShell'' else ''CMD'') @
                       '' '' @ show_nat (nat (count tw + 1)), c')],
                  current_index := count tw,
                  focus_widget := Some (next_wid tw),
                  next_wid := Suc (next_wid tw)\<rparr>)"
proof -
  obtain c' where s: "start E (new_canvas E (next_wid tw) 120 30) None (Some sh) = Inr c'"
    and w: "wid c' = wid (new_canvas E (next_wid tw) 120 30)"
    using start_returns by blast
  have w': "wid c' = next_wid tw"
    using w by (simp add: new_canvas_def)
  show ?thesis
    by (simp add: add_terminal_def Let_def addTab_def setCurrentIndex_def count_def s w')
qed

text \<open>What \<^verbatim>\<open>start(shell="powershell.exe")\<close> leaves on a canvas that was just made.\<close>

lemma start_new_canvas:
  "\<exists>c'. start E (new_canvas E w 120 30) None (Some ''powershell.exe'') = Inr c' \<and>
        pty c' = (if HAS_WINPTY E
                  then (case spawn E [''powershell.exe''] (home E) (30, 120) of
                          Inr p \<Rightarrow> Some p
                        | Inl e \<Rightarrow> None)
                  else None) \<and>
        reader c' = (if pty c' = None then None else Some \<lparr>rd_running = True\<rparr>)"
proof (cases "HAS_WINPTY E")
  case False
  then show ?thesis
    by (simp add: start_def new_canvas_def)
next
  case True
  show ?thesis
  proof (cases "spawn E [''powershell.exe''] (home E) (30, 120)")
    case (Inl e)
    with True show ?thesis
      by (simp add: start_def new_canvas_def Let_def)
  next
    case (Inr p)
    with True show ?thesis
      by (simp add: start_def new_canvas_def Let_def)
  qed
qed

lemma show_nat_1: "show_nat (Suc 0) = ''1''"
  by code_simp

lemma powershell_name: "contains ''powershell'' (lower ''powershell.exe'')"
  by (simp add: lower_def lower_char_def)

lemma close_only_tab:
  assumes t: "tabs tw = [(l, c)]"
  shows "\<exists>tw' c'. close_tab E tw 0 = Inr tw' \<and>
         tabs tw' = [(''PowerShell 1'', c')] \<and> current_index tw' = 0 \<and>
         wid c' = next_wid tw \<and> focus_widget tw' = Some (next_wid tw) \<and>
         pty c' = (if HAS_WINPTY E
                   then (case spawn E [''powershell.exe''] (home E) (30, 120) of
                           Inr p \<Rightarrow> Some p
                         | Inl e \<Rightarrow> None)
                   else None) \<and>
         reader c' = (if pty c' = None then None else Some \<lparr>rd_running = True\<rparr>) \<and>
         detached tw' = detached tw @ [stop c]"
proof -
  let ?n = "new_canvas E (next_wid tw) 120 30"
  obtain c' where st: "start E ?n None (Some ''powershell.exe'') = Inr c'"
    and p: "pty c' = (if HAS_WINPTY E
                 then (case spawn E [''powershell.exe''] (home E) (30, 120) of
                         Inr p \<Rightarrow> Some p
                       | Inl e \<Rightarrow> None)
                 else None)"
    and r: "reader c' = (if pty c' = None then None else Some \<lparr>rd_running = True\<rparr>)"
    using start_new_canvas [of E "next_wid tw"] by blast
  have w: "wid c' = next_wid tw"
    using start_returns [of E ?n None "Some ''powershell.exe''"] st
    by (simp add: new_canvas_def)
  have "close_tab E tw 0 =
          Inr (tw\<lparr>tabs := [(''PowerShell 1'', c')], current_index := 0,
                  detached := detached tw @ [stop c],
                  focus_widget := Some (next_wid tw),
                  next_wid := Suc (next_wid tw)\<rparr>)"
    using t powershell_name
    by (simp add: close_tab_def Let_def widget_def removeTab_def count_def
        add_terminal_def addTab_def setCurrentIndex_def st show_nat_1 w)
  with p r w show ?thesis
    by simp
qed


text \<open>
  C7, as the code has it. Every close-tab operation returns with a non-empty tab
  collection, whatever the index and whatever the libraries do. Closing the only tab
  leaves exactly one tab, the replacement made by \<^verbatim>\<open>_add_terminal()\<close>: a new canvas,
  current and focused, labelled \<open>PowerShell 1\<close>, on which \<^verbatim>\<open>start\<close> was run for
  \<open>powershell.exe\<close>. It holds the PTY that spawning \<open>powershell.exe\<close> in the home directory
  at 30 by 120 returned, with its reader running, when \<^verbatim>\<open>winpty\<close> is there and the spawn
  succeeds; otherwise it holds no PTY and no reader. The closed canvas was stopped before
  it was taken out.
\<close>

theorem close_tab_never_empties:
  "(\<exists>tw'. close_tab E tw i = Inr tw' \<and> tabs tw' \<noteq> []) \<and>
   (tabs tw = [(l, c)] \<longrightarrow>
      (\<exists>tw' c'. close_tab E tw 0 = Inr tw' \<and>
         tabs tw' = [(''PowerShell 1'', c')] \<and> current_index tw' = 0 \<and>
         wid c' = next_wid tw \<and> focus_widget tw' = Some (next_wid tw) \<and>
         pty c' = (if HAS_WINPTY E
                   then (case spawn E [''powershell.exe''] (home E) (30, 120) of
                           Inr p \<Rightarrow> Some p
                         | Inl e \<Rightarrow> None)
                   else None) \<and>
         reader c' = (if pty c' = None then None else Some \<lparr>rd_running = True\<rparr>) \<and>
         detached tw' = detached tw @ [stop c]))"
proof
  let ?tw1 = "case widget tw i of
                None \<Rightarrow> tw
              | Some w \<Rightarrow> tw\<lparr>tabs := (tabs tw)[nat i := (fst (tabs tw ! nat i), stop w)]\<rparr>"
  let ?tw2 = "removeTab ?tw1 i"
  show "\<exists>tw'. close_tab E tw i = Inr tw' \<and> tabs tw' \<noteq> []"
  proof (cases "count ?tw2 = 0")
    case True
    obtain c' where "add_terminal E ?tw2 (ShellStr ''powershell.exe'') =
          Inr (?tw2\<lparr>tabs := tabs ?tw2 @
                    [((if contains ''powershell'' (lower ''powershell.exe'')
                       then ''PowerShell'' else ''CMD'') @
                       '' '' @ show_nat (nat (count ?tw2 + 1)), c')],
                  current_index := count ?tw2,
                  focus_widget := Some (next_wid ?tw2),
                  next_wid := Suc (next_wid ?tw2)\<rparr>)"
      using add_terminal_result [of E ?tw2 "''powershell.exe''"] by blast
    with True show ?thesis
      by (simp add: close_tab_def Let_def)
  next
    case False
    then show ?thesis
      by (simp add: close_tab_def Let_def count_def)
  qed
next
  show "tabs tw = [(l, c)] \<longrightarrow>
      (\<exists>tw' c'. close_tab E tw 0 = Inr tw' \<and>
         tabs tw' = [(''PowerShell 1'', c')] \<and> current_index tw' = 0 \<and>
         wid c' = next_wid tw \<and> focus_widget tw' = Some (next_wid tw) \<and>
         pty c' = (if HAS_WINPTY E
                   then (case spawn E [''powershell.exe''] (home E) (30, 120) of
                           Inr p \<Rightarrow> Some p
                         | Inl e \<Rightarrow> None)
                   else None) \<and>
         reader c' = (if pty c' = None then None else Some \<lparr>rd_running = True\<rparr>) \<and>
         detached tw' = detached tw @ [stop c])"
    using close_only_tab [of tw l c E] by blast
qed

text \<open>Closing the only tab where every library call succeeds: the replacement runs the new shell.\<close>

theorem close_tab_never_empties_witness:
  "tabs one_tab = [(''PowerShell 1'', example_canvas)] \<and>
   (\<exists>tw'. close_tab example_env one_tab 0 = Inr tw' \<and> tabs tw' \<noteq> []) \<and>
   (\<exists>tw' c'. close_tab example_env one_tab 0 = Inr tw' \<and>
      tabs tw' = [(''PowerShell 1'', c')] \<and> current_index tw' = 0 \<and>
      wid c' = 1 \<and> focus_widget tw' = Some 1 \<and>
      pty c' = Some example_pty \<and> reader c' = Some \<lparr>rd_running = True\<rparr> \<and>
      detached tw' = [stop example_canvas])"
proof -
  have a: "tabs one_tab = [(''PowerShell 1'', example_canvas)]"
    by (simp add: one_tab_def)
  have v: "HAS_WINPTY example_env"
    "spawn example_env [''powershell.exe''] (home example_env) (30, 120) = Inr example_pty"
    "next_wid one_tab = 1" "detached one_tab = []"
    by (simp_all add: example_env_def example_pty_def one_tab_def)
  note t = close_tab_never_empties [of example_env one_tab 0 "''PowerShell 1''" example_canvas]
  show ?thesis
  proof (intro conjI)
    show "\<exists>tw'. close_tab example_env one_tab 0 = Inr tw' \<and> tabs tw' \<noteq> []"
      using t by (rule conjunct1)
    show "\<exists>tw' c'. close_tab example_env one_tab 0 = Inr tw' \<and>
      tabs tw' = [(''PowerShell 1'', c')] \<and> current_index tw' = 0 \<and>
      wid c' = 1 \<and> focus_widget tw' = Some 1 \<and>
      pty c' = Some example_pty \<and> reader c' = Some \<lparr>rd_running = True\<rparr> \<and>
      detached tw' = [stop example_canvas]"
    proof -
      from t [THEN conjunct2, rule_format, OF a]
      obtain tw' c' where r: "close_tab example_env one_tab 0 = Inr tw'"
        and f: "tabs tw' = [(''PowerShell 1'', c')]" "current_index tw' = 0"
          "wid c' = next_wid one_tab" "focus_widget tw' = Some (next_wid one_tab)"
        and p: "pty c' = (if HAS_WINPTY example_env
                   then (case spawn example_env [''powershell.exe''] (home example_env) (30, 120) of
                           Inr p \<Rightarrow> Some p
                         | Inl e \<Rightarrow> None)
                   else None)"
        and rd: "reader c' = (if pty c' = None then None else Some \<lparr>rd_running = True\<rparr>)"
        and d: "detached tw' = detached one_tab @ [stop example_canvas]"
        by blast
      have p': "pty c' = Some example_pty"
        using p by (simp add: v)
      have rd': "reader c' = Some \<lparr>rd_running = True\<rparr>"
        using rd by (simp add: p')
      show ?thesis
        using r f p' rd' d by (simp add: v)
    qed
  qed (rule a)
qed

text \<open>
  The claim that the replacement runs a freshly spawned default shell fails where the
  spawn raises: closing the only tab then leaves one tab whose canvas has no PTY.
\<close>

theorem replacement_without_shell:
  "spawn failing_env [''powershell.exe''] (home failing_env) (30, 120) =
     Inl (Exception ''cannot spawn'') \<and>
   isl (close_tab failing_env one_tab 0) = False \<and>
   length (tabs (projr (close_tab failing_env one_tab 0))) = 1 \<and>
   pty (snd (hd (tabs (projr (close_tab failing_env one_tab 0))))) = None"
proof -
  have t: "tabs one_tab = [(''PowerShell 1'', example_canvas)]"
    by (simp add: one_tab_def)
  have s: "spawn failing_env [''powershell.exe''] (home failing_env) (30, 120) =
             Inl (Exception ''cannot spawn'')"
    by (simp add: failing_env_def)
  have h: "HAS_WINPTY failing_env"
    by (simp add: failing_env_def example_env_def)
  obtain tw' c' where r: "close_tab failing_env one_tab 0 = Inr tw'"
    and l: "tabs tw' = [(''PowerShell 1'', c')]"
    and p: "pty c' = (if HAS_WINPTY failing_env
                   then (case spawn failing_env [''powershell.exe''] (home failing_env) (30, 120) of
                           Inr p \<Rightarrow> Some p
                         | Inl e \<Rightarrow> None)
                   else None)"
    using close_only_tab [OF t, of failing_env] by blast
  show ?thesis
    using p by (simp add: r l s h)
qed

text \<open>
  C10, evaluated on the code. Called with the \<^verbatim>\<open>checked\<close> flag that the \<open>+\<close> button passes,
  \<^verbatim>\<open>_add_terminal\<close> raises \<^verbatim>\<open>AttributeError\<close> at \<^verbatim>\<open>shell.lower()\<close>, before any tab is added.
  Called with a string, it returns with the new canvas as the last tab, makes that tab the
  current one and calls \<^verbatim>\<open>setFocus()\<close> on the new canvas.
\<close>

theorem add_terminal_checked_raises:
  "add_terminal E tw (Checked b) = Inl AttributeError \<and>
   (\<exists>tw' label c'.
      add_terminal E tw (ShellStr shell) = Inr tw' \<and>
      tabs tw' = tabs tw @ [(label, c')] \<and>
      current_index tw' = count tw \<and>
      wid c' = next_wid tw \<and>
      focus_widget tw' = Some (wid c'))"
proof
  show "add_terminal E tw (Checked b) = Inl AttributeError"
    by (simp add: add_terminal_def)
next
  obtain c' where w: "wid c' = next_wid tw"
    and r: "add_terminal E tw (ShellStr shell) =
          Inr (tw\<lparr>tabs := tabs tw @
                    [((if contains ''powershell'' (lower shell) then ''PowerShell'' else ''CMD'') @
                       '' '' @ show_nat (nat (count tw + 1)), c')],
                  current_index := count tw,
                  focus_widget := Some (next_wid tw),
                  next_wid := Suc (next_wid tw)\<rparr>)"
    using add_terminal_result [of E tw shell] by blast
  show "\<exists>tw' label c'.
      add_terminal E tw (ShellStr shell) = Inr tw' \<and>
      tabs tw' = tabs tw @ [(label, c')] \<and>
      current_index tw' = count tw \<and>
      wid c' = next_wid tw \<and>
      focus_widget tw' = Some (wid c')"
    using w by (simp add: r)
qed

section \<open>Painting\<close>

lemma fg_color_hex: "fg_color v = Inr q \<Longrightarrow> \<exists>h. q = Hex h"
  by (auto simp add: fg_color_def Let_def split: pyval.splits if_splits sum.splits)

lemma bg_color_hex: "bg_color v = Inr (Some q) \<Longrightarrow> \<exists>h. q = Hex h"
  by (auto simp add: bg_color_def Let_def split: pyval.splits if_splits sum.splits)

lemma paint_char_no_cursor:
  "d \<in> set (fst (paint_char c r x ch)) \<Longrightarrow> \<not> is_cursor_block d"
  by (auto simp add: paint_char_def Let_def cursor_color_def
      split: sum.splits option.splits dest: bg_color_hex)

lemma paint_row_no_cursor:
  "d \<in> set (fst (paint_row c r x chs)) \<Longrightarrow> \<not> is_cursor_block d"
proof (induction chs arbitrary: x d)
  case Nil
  then show ?case by simp
next
  case (Cons ch chs)
  obtain ds e where p: "paint_char c r x ch = (ds, e)"
    by (cases "paint_char c r x ch")
  obtain ds' e' where q: "paint_row c r (x + char_width c) chs = (ds', e')"
    by (cases "paint_row c r (x + char_width c) chs")
  from Cons.prems p q have "d \<in> set ds \<or> d \<in> set ds'"
    by (cases e) auto
  then show ?case
  proof
    assume "d \<in> set ds"
    then show ?thesis using paint_char_no_cursor [of d c r x ch] p by simp
  next
    assume "d \<in> set ds'"
    then show ?thesis using Cons.IH [of d "x + char_width c"] q by simp
  qed
qed

lemma paint_rows_no_cursor:
  "d \<in> set (fst (paint_rows c r rs)) \<Longrightarrow> \<not> is_cursor_block d"
proof (induction rs arbitrary: r d)
  case Nil
  then show ?case by simp
next
  case (Cons row rs)
  show ?case
  proof (cases "enumerate_row row")
    case (Inl e)
    with Cons.prems show ?thesis by simp
  next
    case (Inr chs)
    obtain ds e where p: "paint_row c r 0 chs = (ds, e)"
      by (cases "paint_row c r 0 chs")
    obtain ds' e' where q: "paint_rows c (r + 1) rs = (ds', e')"
      by (cases "paint_rows c (r + 1) rs")
    from Cons.prems Inr p q have "d \<in> set ds \<or> d \<in> set ds'"
      by (cases e) auto
    then show ?thesis
    proof
      assume "d \<in> set ds"
      then show ?thesis using paint_row_no_cursor [of d c r 0 chs] p by simp
    next
      assume "d \<in> set ds'"
      then show ?thesis using Cons.IH [of d "r + 1"] q by simp
    qed
  qed
qed

text \<open>
  The guard of the cursor: whatever the screen holds, a cursor block among the commands
  of \<^verbatim>\<open>paintEvent\<close> means that \<open>0 \<le> cursor.y < rows\<close> and \<open>0 \<le> cursor.x < cols\<close>.
\<close>

lemma cursor_block_only_in_bounds:
  assumes "screen c = Some s" and "\<exists>d \<in> set (fst (paintEvent c)). is_cursor_block d"
  shows "cursor_in_bounds c s"
proof -
  obtain ds e where p: "paint_rows c 0 (map IntObj (dict_iter (scr_buffer s))) = (ds, e)"
    by (cases "paint_rows c 0 (map IntObj (dict_iter (scr_buffer s)))")
  have nc: "\<And>d. d \<in> set ds \<Longrightarrow> \<not> is_cursor_block d"
    using paint_rows_no_cursor [of _ c 0 "map IntObj (dict_iter (scr_buffer s))"] p by simp
  show ?thesis
    using assms p nc
    by (cases e; cases "cursor_in_bounds c s") (auto simp add: paintEvent_def)
qed

text \<open>
  As soon as the buffer holds a line, the pass over the cells ends at the first
  \<^verbatim>\<open>enumerate(row)\<close>: \<^verbatim>\<open>row\<close> is the line's number, and \<^verbatim>\<open>paintEvent\<close> raises after the
  background has been filled.
\<close>

lemma paintEvent_raises_on_lines:
  assumes "screen c = Some s" and "scr_buffer s \<noteq> []"
  shows "paintEvent c = ([FillAll (Hex ''#0c0c0c'')], Some TypeError)"
proof -
  obtain k l rest where b: "scr_buffer s = (k, l) # rest"
    using assms(2) by (cases "scr_buffer s") auto
  show ?thesis
    using assms(1) by (simp add: paintEvent_def dict_iter_def b)
qed

text \<open>
  C9, evaluated on the code. The canvas shows a screen whose buffer holds one line and
  whose cursor lies right of the last column. No cursor block is drawn, but the painting
  does not complete: \<^verbatim>\<open>paintEvent\<close> fills the background and raises \<^verbatim>\<open>TypeError\<close> in the
  pass over the cells, before the lines of the cursor are reached.
\<close>

theorem paint_outside_cursor_raises:
  "screen offscreen_canvas = Some offscreen_screen \<and>
   \<not> cursor_in_bounds offscreen_canvas offscreen_screen \<and>
   paintEvent offscreen_canvas = ([FillAll (Hex ''#0c0c0c'')], Some TypeError)"
proof -
  have a: "screen offscreen_canvas = Some offscreen_screen"
    by (simp add: offscreen_canvas_def)
  have v: "cols offscreen_canvas = 120" "rows offscreen_canvas = 30"
    by (simp_all add: offscreen_canvas_def example_canvas_def new_canvas_def)
  have b: "\<not> cursor_in_bounds offscreen_canvas offscreen_screen"
    by (simp add: cursor_in_bounds_def v offscreen_screen_def)
  have n: "scr_buffer offscreen_screen \<noteq> []"
    by (simp add: offscreen_screen_def)
  from a b paintEvent_raises_on_lines [OF a n] show ?thesis
    by (intro conjI)
qed

text \<open>
  C2, evaluated on the code. With \<open>Red\<close> and \<open>Normal\<close> on line 0 of the screen,
  \<^verbatim>\<open>paintEvent\<close> fills the background and raises \<^verbatim>\<open>TypeError\<close>: no character of either word
  is drawn, in any colour. Entry 1 of the table is \<open>#c50f1f\<close>, and the mapping of the pen
  would reach the table only for an integer foreground: a foreground given by name gets
  \<open>#cccccc\<close>.
\<close>

theorem paint_red_normal_raises:
  "paintEvent red_normal_canvas = ([FillAll (Hex ''#0c0c0c'')], Some TypeError) \<and>
   COLORS_16 ! 1 = ''#c50f1f'' \<and>
   fg_color (PyInt 1) = Inr (Hex ''#c50f1f'') \<and>
   fg_color (PyStr ''red'') = Inr (Hex ''#cccccc'') \<and>
   fg_color (PyStr ''default'') = Inr (Hex ''#cccccc'')"
proof -
  have a: "screen red_normal_canvas = Some red_normal_screen"
    by (simp add: red_normal_canvas_def)
  have n: "scr_buffer red_normal_screen \<noteq> []"
    by (simp add: red_normal_screen_def)
  have i: "py_index COLORS_16 1 = Inr ''#c50f1f''"
    by (simp add: py_index_def COLORS_16_def)
  have t: "COLORS_16 ! 1 = ''#c50f1f''"
    by (simp add: COLORS_16_def)
  show ?thesis
    using paintEvent_raises_on_lines [OF a n] t
    by (simp add: fg_color_def i)
qed

section \<open>Stopping the reader loop\<close>

lemma run_stopped: "\<not> rt_running r \<Longrightarrow> run st r es = Exited r (exit_code st)"
  by (cases es) simp_all

text \<open>
  C4, as the code has it. \<^verbatim>\<open>stop()\<close> only clears \<^verbatim>\<open>_running\<close>, and the flag is read at the loop
  head. A loop that is at its head when stopped exits at once, without another read. When
  \<^verbatim>\<open>stop()\<close> comes during a pass whose read returns or raises, the loop exits right after
  that one read, and the error of a read that raises after the stop is not logged. A read
  that stays blocked, the PTY alive and silent, holds the thread in \<^verbatim>\<open>pty.read\<close> whether or
  not \<^verbatim>\<open>stop()\<close> was called: \<^verbatim>\<open>stop()\<close> has no means to end it.
\<close>

theorem stop_ends_loop_when_read_returns:
  "run st (reader_stop r) es = Exited (reader_stop r) (exit_code st) \<and>
   (rt_running r \<longrightarrow> it_alive e \<longrightarrow> it_stop e \<longrightarrow> it_read e \<noteq> ReadBlocks \<longrightarrow>
      (\<exists>r'. run st r (e # es) = Exited r' (exit_code st) \<and>
            rt_reads r' = Suc (rt_reads r) \<and> \<not> rt_running r' \<and> rt_log r' = rt_log r)) \<and>
   (rt_running r \<longrightarrow> it_alive e \<longrightarrow> it_read e = ReadBlocks \<longrightarrow>
      run st r (e # es) =
        BlockedInRead (r\<lparr>rt_reads := Suc (rt_reads r), rt_running := \<not> it_stop e\<rparr>))"
proof (intro conjI impI)
  show "run st (reader_stop r) es = Exited (reader_stop r) (exit_code st)"
    by (rule run_stopped) (simp add: reader_stop_def)
next
  assume a: "rt_running r" "it_alive e" "it_stop e" "it_read e \<noteq> ReadBlocks"
  show "\<exists>r'. run st r (e # es) = Exited r' (exit_code st) \<and>
            rt_reads r' = Suc (rt_reads r) \<and> \<not> rt_running r' \<and> rt_log r' = rt_log r"
  proof (cases "it_read e")
    case (ReadReturns d)
    then show ?thesis
      using a by (simp add: Let_def reader_stop_def run_stopped)
  next
    case (ReadRaises err)
    then show ?thesis
      using a by (simp add: Let_def reader_stop_def)
  next
    case ReadBlocks
    then show ?thesis using a by simp
  qed
next
  assume "rt_running r" "it_alive e" "it_read e = ReadBlocks"
  then show "run st r (e # es) =
        BlockedInRead (r\<lparr>rt_reads := Suc (rt_reads r), rt_running := \<not> it_stop e\<rparr>)"
    by (simp add: Let_def reader_stop_def)
qed

theorem stop_ends_loop_when_read_returns_witness:
  "rt_running fresh_reader \<and> it_alive empty_pass \<and> it_stop empty_pass \<and>
   it_read empty_pass \<noteq> ReadBlocks \<and>
   (\<exists>r'. run None fresh_reader [empty_pass, silent_pass] = Exited r' 0 \<and>
      rt_reads r' = 1 \<and> \<not> rt_running r' \<and> rt_log r' = [])"
proof -
  have a: "rt_running fresh_reader" "it_alive empty_pass" "it_stop empty_pass"
    "it_read empty_pass \<noteq> ReadBlocks"
    by (simp_all add: fresh_reader_def empty_pass_def)
  have v: "rt_reads fresh_reader = 0" "rt_log fresh_reader = []" "exit_code None = 0"
    by (simp_all add: fresh_reader_def exit_code_def)
  have "\<exists>r'. run None fresh_reader [empty_pass, silent_pass] = Exited r' 0 \<and>
      rt_reads r' = 1 \<and> \<not> rt_running r' \<and> rt_log r' = []"
    using stop_ends_loop_when_read_returns
      [of None fresh_reader "[silent_pass]" empty_pass, THEN conjunct2, THEN conjunct1,
       rule_format, OF a]
    by (simp only: v One_nat_def)
  with a show ?thesis by (intro conjI)
qed

text \<open>
  The claim that the loop exits after at most one further read attempt while the PTY
  stays alive and silent fails: with \<^verbatim>\<open>stop()\<close> called during such a read, the thread is
  still inside \<^verbatim>\<open>pty.read\<close>, its flag cleared.
\<close>

theorem stop_during_silent_read_blocks:
  "it_alive silent_pass \<and> it_stop silent_pass \<and>
   run None fresh_reader [silent_pass] =
     BlockedInRead (fresh_reader\<lparr>rt_reads := 1, rt_running := False\<rparr>)"
  by (simp add: fresh_reader_def silent_pass_def reader_stop_def)

end
